theory Spec2Isabelle
  imports Main
begin

section \<open>The Ory proxy: request classification, session check and certificate lifecycle\<close>

text \<open>
  A shallow embedding of package \<open>proxy\<close>: the middleware \<open>checkOry\<close> with the response
  rewriting it installs on the identity-provider reverse proxy, \<open>checkSession\<close>,
  \<open>initUrl\<close> and \<open>createTLSCertificate\<close>. Strings are byte strings, as Go's are.
  Calls into other packages whose code is not part of this repository (net/url, net/http
  cookies, gjson, go-jose, uuid, truststore, tlsx, the resilient HTTP client) are fields of
  the records \<open>env\<close> and \<open>sys\<close>: every theorem holds for whatever those functions return.
\<close>

subsection \<open>Package strings\<close>

definition HasPrefix :: "string \<Rightarrow> string \<Rightarrow> bool" where
  "HasPrefix s p = (length p \<le> length s \<and> take (length p) s = p)"

definition TrimPrefix :: "string \<Rightarrow> string \<Rightarrow> string" where
  "TrimPrefix s p = (if HasPrefix s p then drop (length p) s else s)"

text \<open>\<open>strings.Contains\<close>: some suffix of \<open>s\<close> starts with \<open>sub\<close>.\<close>

primrec Contains :: "string \<Rightarrow> string \<Rightarrow> bool" where
  "Contains [] sub = (sub = [])"
| "Contains (c # cs) sub = (HasPrefix (c # cs) sub \<or> Contains cs sub)"

text \<open>
  \<open>strings.ReplaceAll\<close>: the leftmost occurrence of \<open>old\<close> is replaced, and the search goes
  on behind it, so the occurrences replaced do not overlap. With an empty \<open>old\<close> Go puts
  \<open>new\<close> in front of every rune and at the end; that branch is written for one-byte
  runes and is never taken by \<open>checkOry\<close>, which passes a six-byte pattern.
\<close>

function ReplaceAll :: "string \<Rightarrow> string \<Rightarrow> string \<Rightarrow> string" where
  "ReplaceAll s old new =
     (if old = [] then new @ concat (map (\<lambda>c. c # new) s)
      else if s = [] then []
      else if HasPrefix s old then new @ ReplaceAll (drop (length old) s) old new
      else hd s # ReplaceAll (tl s) old new)"
  by pat_completeness auto
termination
  by (relation "measure (\<lambda>(s, old, new). length s)") auto

declare ReplaceAll.simps [simp del]

text \<open>
  \<open>strings.EqualFold\<close> on ASCII text (host names): letters \<open>A\<close> to \<open>Z\<close> are folded to lower
  case, every other byte is compared as it is.
\<close>

definition toLowerASCII :: "char \<Rightarrow> char" where
  "toLowerASCII c =
     (let n = (of_char c :: nat) in if 65 \<le> n \<and> n \<le> 90 then char_of (n + 32) else c)"

definition EqualFold :: "string \<Rightarrow> string \<Rightarrow> bool" where
  "EqualFold s t = (map toLowerASCII s = map toLowerASCII t)"

subsection \<open>http.Header\<close>

text \<open>
  A header is a map from canonical keys to the list of their values. Every key the
  program passes (\<open>Cookie\<close>, \<open>Authorization\<close>, \<open>X-Session-Token\<close>, \<open>X-Request-Id\<close>,
  \<open>Accept\<close>, \<open>Set-Cookie\<close>, \<open>Location\<close>) is already in canonical form, so the
  canonicalisation of \<open>Get\<close>, \<open>Set\<close>, \<open>Add\<close> and \<open>Del\<close> is the identity on them.
\<close>

type_synonym header = "string \<rightharpoonup> string list"

definition header_Get :: "header \<Rightarrow> string \<Rightarrow> string" where
  "header_Get h k = (case h k of None \<Rightarrow> [] | Some [] \<Rightarrow> [] | Some (v # vs) \<Rightarrow> v)"

text \<open>\<open>h[key]\<close>, all values of a key (\<open>Header.Values\<close>).\<close>

definition header_Values :: "header \<Rightarrow> string \<Rightarrow> string list" where
  "header_Values h k = (case h k of None \<Rightarrow> [] | Some vs \<Rightarrow> vs)"

definition header_Set :: "header \<Rightarrow> string \<Rightarrow> string \<Rightarrow> header" where
  "header_Set h k v = h(k \<mapsto> [v])"

definition header_Add :: "header \<Rightarrow> string \<Rightarrow> string \<Rightarrow> header" where
  "header_Add h k v = h(k \<mapsto> (case h k of None \<Rightarrow> [v] | Some vs \<Rightarrow> vs @ [v]))"

definition header_Del :: "header \<Rightarrow> string \<Rightarrow> header" where
  "header_Del h k = h(k := None)"

subsection \<open>Data\<close>

record config =
  port :: int
  noCert :: bool
  noOpen :: bool
  apiEndpoint :: string
  consoleEndpoint :: string
  hostPort :: string
  isLocal :: bool
  upstream :: string

text \<open>\<open>url.URL\<close>, the fields the program reads or writes, and the rest it leaves alone.\<close>

record url =
  url_Scheme :: string
  url_Host :: string
  url_Path :: string
  url_RawQuery :: string
  url_Fragment :: string

text \<open>The inbound \<open>http.Request\<close>.\<close>

record request =
  Method :: string
  URL :: url
  Host :: string
  Header :: header
  Body :: string

text \<open>The request \<open>checkSession\<close> builds for the identity provider.\<close>

record out_request =
  out_Method :: string
  out_URL :: string
  out_Header :: header

text \<open>\<open>url.Values\<close>, the parsed query.\<close>

type_synonym url_Values = "string \<rightharpoonup> string list"

definition values_Set :: "url_Values \<Rightarrow> string \<Rightarrow> string \<Rightarrow> url_Values" where
  "values_Set q k v = q(k \<mapsto> [v])"

datatype error =
  LibError string
| ErrInternalServerError
| ErrInternalServerErrorWithReason string error

text \<open>
  Times are nanoseconds since the Unix epoch; \<open>time.Minute\<close> is the duration constant of
  package time. \<open>jwt.NewNumericDate\<close> gives nil for the zero time (1 January of year 1)
  and the whole Unix seconds of any other time.
\<close>

definition Minute :: int where
  "Minute = 60 * 1000000000"

definition zeroTime :: int where
  "zeroTime = - 62135596800 * 1000000000"

definition NewNumericDate :: "int \<Rightarrow> int option" where
  "NewNumericDate t = (if t = zeroTime then None else Some (t div 1000000000))"

text \<open>
  The claim set handed to the signer: the registered claims of \<open>jwt.Claims\<close> that the
  program fills in, and the private claim \<open>session\<close> of the second \<open>Claims\<close> call.
\<close>

record token_claims =
  Issuer :: string
  Subject :: string
  Expiry :: "int option"
  NotBefore :: "int option"
  IssuedAt :: "int option"
  ID :: string
  session_claim :: string

text \<open>
  \<open>jwt.Signed(sig).Claims(..).Claims(..).CompactSerialize()\<close> for a signer \<open>sig\<close>: the
  compact token, or the error of the serialisation.
\<close>

type_synonym signer = "token_claims \<Rightarrow> error + string"

record cookie =
  Name :: string
  Value :: string
  Path :: string
  Domain :: string
  Expires :: string
  MaxAge :: int
  Secure :: bool
  HttpOnly :: bool
  SameSite :: string

text \<open>The response handed to \<open>ModifyResponse\<close>: its header and the host of its request.\<close>

record response =
  res_Request_Host :: string
  res_Header :: header

text \<open>
  What lies outside the repository at request time. \<open>time_Now\<close> and \<open>uuid_NewV4\<close> are
  the clock reading and the random UUID of the request at hand; \<open>client_Do\<close> is the
  resilient client, giving the response body or the transport error; \<open>json_Decode\<close> is
  \<open>json.NewDecoder(body).Decode\<close> into a \<open>json.RawMessage\<close>; \<open>gjson_Bool\<close> and
  \<open>gjson_String\<close> are \<open>gjson.GetBytes(json, path).Bool()\<close> and \<open>.String()\<close>;
  \<open>parseSetCookie\<close> reads one \<open>Set-Cookie\<close> line as \<open>Response.Cookies\<close> does, with
  \<open>None\<close> for a line it skips.
\<close>

record 'k env =
  url_String :: "url \<Rightarrow> string"
  url_Hostname :: "url \<Rightarrow> string"
  url_ParseQuery :: "string \<Rightarrow> url_Values"
  values_Encode :: "url_Values \<Rightarrow> string"
  filepath_Join :: "string list \<Rightarrow> string"
  retryablehttp_NewRequest :: "string \<Rightarrow> string \<Rightarrow> error + out_request"
  client_Do :: "out_request \<Rightarrow> error + string"
  json_Decode :: "string \<Rightarrow> error + string"
  gjson_Bool :: "string \<Rightarrow> string \<Rightarrow> bool"
  gjson_String :: "string \<Rightarrow> string \<Rightarrow> string"
  jwk_Public :: "'k \<Rightarrow> 'k"
  time_Now :: int
  uuid_NewV4 :: "error + string"
  res_Location :: "response \<Rightarrow> url option"
  parseSetCookie :: "string \<Rightarrow> cookie option"
  cookie_String :: "cookie \<Rightarrow> string"

subsection \<open>initUrl and checkSession\<close>

definition initUrl :: "string \<Rightarrow> config \<Rightarrow> string" where
  "initUrl method conf =
     ''/.ory/api/kratos/public/self-service/'' @ method @ ''/browser?return_to=''
       @ (''https://'' @ hostPort conf)"

text \<open>
  \<open>checkSession\<close> up to the call of the client (lines 273 to 284): the request it sends.
\<close>

definition checkSession_request :: "'k env \<Rightarrow> request \<Rightarrow> url \<Rightarrow> error + out_request" where
  "checkSession_request E r target =
     (let target' = target\<lparr>url_Path :=
            filepath_Join E [url_Path target, ''api'', ''kratos'', ''public'', ''sessions'', ''whoami'']\<rparr>
      in case retryablehttp_NewRequest E ''GET'' (url_String E target') of
           Inl err \<Rightarrow> Inl ErrInternalServerError
         | Inr req \<Rightarrow>
             (let h1 = header_Set (out_Header req) ''Cookie'' (header_Get (Header r) ''Cookie'');
                  h2 = header_Set h1 ''Authorization'' (header_Get (Header r) ''Authorization'');
                  h3 = header_Set h2 ''X-Session-Token'' (header_Get (Header r) ''X-Session-Token'');
                  h4 = header_Set h3 ''X-Request-Id'' (header_Get (Header r) ''X-Request-Id'');
                  h5 = header_Set h4 ''Accept'' ''application/json''
              in Inr (req\<lparr>out_Header := h5\<rparr>)))"

definition checkSession :: "'k env \<Rightarrow> request \<Rightarrow> url \<Rightarrow> error + string" where
  "checkSession E r target =
     (case checkSession_request E r target of
        Inl err \<Rightarrow> Inl err
      | Inr req \<Rightarrow>
          (case client_Do E req of
             Inl err \<Rightarrow> Inl (ErrInternalServerErrorWithReason ''Unable to call session checker: '' err)
           | Inr res_body \<Rightarrow>
               (case json_Decode E res_body of
                  Inl err \<Rightarrow> Inl (ErrInternalServerErrorWithReason ''Unable to decode session to JSON: '' err)
                | Inr body \<Rightarrow> Inr body)))"

subsection \<open>checkOry\<close>

text \<open>What the handler does with a request: the one call that ends it.\<close>

datatype 'k outcome =
  Write "'k list"
| Redirect string nat
| OryUpstream request
| Next request
| WriteError error
| Panic error

definition StatusSeeOther :: nat where
  "StatusSeeOther = 303"

text \<open>The rewriting of a request under the reserved prefix (lines 232 to 236).\<close>

definition forwardToOry :: "'k env \<Rightarrow> url \<Rightarrow> request \<Rightarrow> request" where
  "forwardToOry E endpoint r =
     (let r1 = r\<lparr>URL := (URL r)\<lparr>url_Path := ReplaceAll (url_Path (URL r)) ''/.ory/'' ''/''\<rparr>\<rparr>;
          r2 = r1\<lparr>Host := url_Host endpoint\<rparr>;
          q = values_Set (url_ParseQuery E (url_RawQuery (URL r2))) ''isProxy'' ''true''
      in r2\<lparr>URL := (URL r2)\<lparr>url_RawQuery := values_Encode E q\<rparr>\<rparr>)"

text \<open>The claim set of lines 254 to 261 for the session \<open>session\<close> and the drawn UUID \<open>u\<close>.\<close>

definition sessionClaims :: "'k env \<Rightarrow> url \<Rightarrow> string \<Rightarrow> string \<Rightarrow> token_claims" where
  "sessionClaims E endpoint session u =
     (let now = time_Now E
      in \<lparr>Issuer = url_String E endpoint,
          Subject = gjson_String E session ''identity.id'',
          Expiry = NewNumericDate (now + Minute),
          NotBefore = NewNumericDate now,
          IssuedAt = NewNumericDate now,
          ID = u,
          session_claim = session\<rparr>)"

definition checkOry ::
  "'k env \<Rightarrow> config \<Rightarrow> 'k list \<Rightarrow> signer \<Rightarrow> url \<Rightarrow> request \<Rightarrow> 'k outcome" where
  "checkOry E conf keys sig endpoint r =
     (let publicKeys = map (jwk_Public E) keys;
          p = url_Path (URL r)
      in if p = ''/.ory/jwks.json'' then Write publicKeys
         else if p = ''/.ory/login'' then Write publicKeys
         else if p = ''/.ory/jwks.json'' then Write publicKeys
         else if p = ''/.ory/init/login'' then Redirect (initUrl ''login'' conf) StatusSeeOther
         else if p = ''/.ory/init/registration'' then Redirect (initUrl ''registration'' conf) StatusSeeOther
         else if p = ''/.ory/init/recovery'' then Redirect (initUrl ''recovery'' conf) StatusSeeOther
         else if p = ''/.ory/init/verification'' then Redirect (initUrl ''verification'' conf) StatusSeeOther
         else if p = ''/.ory/init/settings'' then Redirect (initUrl ''settings'' conf) StatusSeeOther
         else if HasPrefix p ''/.ory'' then OryUpstream (forwardToOry E endpoint r)
         else
           (let session = checkSession E r endpoint;
                r' = r\<lparr>Header := header_Del (Header r) ''Authorization''\<rparr>
            in case session of
                 Inl err \<Rightarrow> Next r'
               | Inr s \<Rightarrow>
                   if \<not> gjson_Bool E s ''active'' then Next r'
                   else
                     (case uuid_NewV4 E of
                        Inl err \<Rightarrow> Panic err
                      | Inr u \<Rightarrow>
                          (case sig (sessionClaims E endpoint s u) of
                             Inl err \<Rightarrow> WriteError err
                           | Inr raw \<Rightarrow>
                               Next (r'\<lparr>Header :=
                                 header_Set (Header r') ''Authorization'' (''Bearer '' @ raw)\<rparr>)))))"

text \<open>The paths the handler answers itself.\<close>

definition fixedPaths :: "string list" where
  "fixedPaths =
     [''/.ory/jwks.json'', ''/.ory/login'', ''/.ory/init/login'', ''/.ory/init/registration'',
      ''/.ory/init/recovery'', ''/.ory/init/verification'', ''/.ory/init/settings'']"

subsection \<open>ModifyResponse of the identity-provider reverse proxy\<close>

text \<open>\<open>res.Cookies()\<close>: the \<open>Set-Cookie\<close> lines that parse, in their order.\<close>

definition Cookies :: "'k env \<Rightarrow> response \<Rightarrow> cookie list" where
  "Cookies E res =
     List.map_filter (parseSetCookie E) (header_Values (res_Header res) ''Set-Cookie'')"

text \<open>The loop of lines 187 to 193 over the parsed cookies.\<close>

primrec addCookies :: "'k env \<Rightarrow> url \<Rightarrow> cookie list \<Rightarrow> header \<Rightarrow> header" where
  "addCookies E endpoint [] h = h"
| "addCookies E endpoint (c # cs) h =
     (if \<not> EqualFold (Domain c) (url_Hostname E endpoint) then addCookies E endpoint cs h
      else addCookies E endpoint cs
             (header_Add h ''Set-Cookie'' (cookie_String E (c\<lparr>Domain := []\<rparr>))))"

definition ModifyResponse :: "'k env \<Rightarrow> config \<Rightarrow> url \<Rightarrow> response \<Rightarrow> response" where
  "ModifyResponse E conf endpoint res =
     (if \<not> EqualFold (res_Request_Host res) (url_Host endpoint) then res
      else
        (let res1 =
               (case res_Location E res of
                  None \<Rightarrow> res
                | Some redir \<Rightarrow>
                    if EqualFold (url_Host redir) (url_Host endpoint)
                    then (let redir1 = redir\<lparr>url_Host := hostPort conf\<rparr>;
                              redir2 = redir1\<lparr>url_Path := ''/.ory'' @ TrimPrefix (url_Path redir1) ''/.ory''\<rparr>
                          in res\<lparr>res_Header := header_Set (res_Header res) ''Location'' (url_String E redir2)\<rparr>)
                    else res);
             cookies = Cookies E res1;
             res2 = res1\<lparr>res_Header := header_Del (res_Header res1) ''Set-Cookie''\<rparr>
         in res2\<lparr>res_Header := addCookies E endpoint cookies (res_Header res2)\<rparr>))"

subsection \<open>createTLSCertificate\<close>

text \<open>
  Key and certificate objects are opaque byte strings. What the process does to the
  outside is a trace of events, oldest first; a call into the trust store returns a
  result that may depend on everything done before it.
\<close>

type_synonym rsa_PrivateKey = string

record x509_Certificate =
  Raw :: string

record pem_Block =
  pem_Type :: string
  pem_Bytes :: string

datatype tls_Certificate = X509KeyPair string string

datatype truststore_Option = WithFirefox | WithJava

datatype event =
  Stdout string
| TruststoreInstall x509_Certificate "truststore_Option list"
| TruststoreUninstall x509_Certificate "truststore_Option list"

type_synonym release = "event list \<Rightarrow> error option \<times> event list"

text \<open>
  \<open>rsa_GenerateKey\<close> returns Go's pair: the key (nil on failure) and the error (nil on
  success).
\<close>

record sys =
  rsa_GenerateKey :: "nat \<Rightarrow> rsa_PrivateKey option \<times> error option"
  tlsx_CreateSelfSignedCertificate :: "rsa_PrivateKey option \<Rightarrow> error + x509_Certificate"
  tlsx_PEMBlockForKey :: "rsa_PrivateKey option \<Rightarrow> error + pem_Block"
  pem_EncodeToMemory :: "pem_Block \<Rightarrow> string"
  tls_X509KeyPair :: "string \<Rightarrow> string \<Rightarrow> error + tls_Certificate"
  truststore_Install :: "x509_Certificate \<Rightarrow> truststore_Option list \<Rightarrow> event list \<Rightarrow> error option"
  truststore_Uninstall :: "x509_Certificate \<Rightarrow> truststore_Option list \<Rightarrow> event list \<Rightarrow> error option"

definition passwordMessage :: string where
  "passwordMessage =
     ''To modify your operating system certificate store, you might might be prompted for your password now:''"

definition installMessage :: string where
  "installMessage =
     ''Trying to install temporary TLS (HTTPS) certificate for localhost on your operating system. This allows to access the proxy using HTTPS.''"

definition opts :: "truststore_Option list" where
  "opts = [WithFirefox, WithJava]"

text \<open>The two release functions the program returns (lines 340 to 342 and 356 to 359).\<close>

definition releaseNoop :: release where
  "releaseNoop t = (None, t)"

definition releaseUninstall :: "sys \<Rightarrow> x509_Certificate \<Rightarrow> release" where
  "releaseUninstall S c t =
     (let t1 = t @ [Stdout passwordMessage]
      in (truststore_Uninstall S c opts t1, t1 @ [TruststoreUninstall c opts]))"

definition createTLSCertificate ::
  "sys \<Rightarrow> config \<Rightarrow> event list \<Rightarrow> (error + tls_Certificate \<times> release) \<times> event list" where
  "createTLSCertificate S conf t =
     (let (key, err) = rsa_GenerateKey S 4096
      in case tlsx_CreateSelfSignedCertificate S key of
           Inl err \<Rightarrow> (Inl err, t)
         | Inr c \<Rightarrow>
             (case tlsx_PEMBlockForKey S key of
                Inl err \<Rightarrow> (Inl err, t)
              | Inr block \<Rightarrow>
                  (let pemCert = pem_EncodeToMemory S \<lparr>pem_Type = ''CERTIFICATE'', pem_Bytes = Raw c\<rparr>;
                       pemKey = pem_EncodeToMemory S block
                   in case tls_X509KeyPair S pemCert pemKey of
                        Inl err \<Rightarrow> (Inl err, t)
                      | Inr cert \<Rightarrow>
                          if noCert conf then (Inr (cert, releaseNoop), t)
                          else
                            (let t1 = t @ [Stdout installMessage, Stdout passwordMessage]
                             in case truststore_Install S c opts t1 of
                                  Some err \<Rightarrow> (Inl err, t1 @ [TruststoreInstall c opts])
                                | None \<Rightarrow>
                                    (Inr (cert, releaseUninstall S c),
                                     t1 @ [TruststoreInstall c opts])))))"

subsection \<open>An example configuration\<close>

text \<open>
  Concrete stand-ins for the outside functions, used to run the definitions on concrete
  requests. They are written for the plain ASCII inputs of the examples: a URL with a
  scheme and a host, a query of one pair, cookies of the form \<open>name=value; Domain=d\<close>.
\<close>

definition example_url_String :: "url \<Rightarrow> string" where
  "example_url_String u =
     url_Scheme u @ ''://'' @ url_Host u
       @ (if url_Path u \<noteq> [] \<and> hd (url_Path u) \<noteq> CHR ''/'' then ''/'' else [])
       @ url_Path u
       @ (if url_RawQuery u = [] then [] else ''?'' @ url_RawQuery u)"

definition example_Hostname :: "url \<Rightarrow> string" where
  "example_Hostname u = takeWhile (\<lambda>c. c \<noteq> CHR '':'') (url_Host u)"

primrec joinWith :: "string \<Rightarrow> string list \<Rightarrow> string" where
  "joinWith sep [] = []"
| "joinWith sep (x # xs) = (if xs = [] then x else x @ sep @ joinWith sep xs)"

definition example_Join :: "string list \<Rightarrow> string" where
  "example_Join elems = joinWith ''/'' (filter (\<lambda>e. e \<noteq> []) elems)"

definition example_ParseQuery :: "string \<Rightarrow> url_Values" where
  "example_ParseQuery q =
     (if q = [] then Map.empty
      else [takeWhile (\<lambda>c. c \<noteq> CHR ''='') q \<mapsto> [drop 1 (dropWhile (\<lambda>c. c \<noteq> CHR ''='') q)]])"

definition example_Encode :: "url_Values \<Rightarrow> string" where
  "example_Encode v =
     joinWith ''&''
       (concat (map (\<lambda>k. case v k of None \<Rightarrow> [] | Some xs \<Rightarrow> map (\<lambda>x. k @ ''='' @ x) xs)
          [''flow'', ''isProxy'']))"

definition example_NewRequest :: "string \<Rightarrow> string \<Rightarrow> error + out_request" where
  "example_NewRequest m u = Inr \<lparr>out_Method = m, out_URL = u, out_Header = Map.empty\<rparr>"

definition active_body :: string where
  \<open>active_body = ''{"active":true,"identity":{"id":"u1"}}''\<close>

definition inactive_body :: string where
  \<open>inactive_body = ''{"active":false}''\<close>

definition unauthorized_body :: string where
  \<open>unauthorized_body = ''{"error":{"code":401}}''\<close>

text \<open>
  The identity provider of the examples: the cookie \<open>ory_session=abc\<close> and the bearer
  token \<open>tok\<close> belong to an active session, the cookie \<open>ory_session=old\<close> to an inactive
  one, the cookie \<open>html\<close> gets a page that is not JSON, and the cookie \<open>down\<close> meets a
  connection that fails.
\<close>

definition example_Do :: "out_request \<Rightarrow> error + string" where
  \<open>example_Do req =
     (let c = header_Get (out_Header req) ''Cookie'';
          a = header_Get (out_Header req) ''Authorization''
      in if c = ''down'' then Inl (LibError ''connection refused'')
         else if c = ''html'' then Inr ''<html>''
         else if c = ''ory_session=abc'' \<or> a = ''Bearer tok'' then Inr active_body
         else if c = ''ory_session=old'' then Inr inactive_body
         else Inr unauthorized_body)\<close>

definition example_Decode :: "string \<Rightarrow> error + string" where
  "example_Decode b =
     (if b \<noteq> [] \<and> hd b = CHR ''{'' then Inr b else Inl (LibError ''invalid character''))"

definition example_Bool :: "string \<Rightarrow> string \<Rightarrow> bool" where
  "example_Bool json path = (path = ''active'' \<and> json = active_body)"

definition example_gjson_String :: "string \<Rightarrow> string \<Rightarrow> string" where
  "example_gjson_String json path = (if path = ''identity.id'' \<and> json = active_body then ''u1'' else [])"

text \<open>A key of the examples: its public part and, for a private key, its private part.\<close>

type_synonym example_key = "string \<times> string option"

definition example_Public :: "example_key \<Rightarrow> example_key" where
  "example_Public k = (fst k, None)"

definition example_keys :: "example_key list" where
  "example_keys = [(''P-256 x y'', Some ''d'')]"

primrec splitOn :: "char \<Rightarrow> string \<Rightarrow> string list" where
  "splitOn sep [] = [[]]"
| "splitOn sep (c # cs) =
     (if c = sep then [] # splitOn sep cs
      else (case splitOn sep cs of [] \<Rightarrow> [[c]] | p # ps \<Rightarrow> (c # p) # ps))"

definition attribute :: "string \<Rightarrow> string list \<Rightarrow> string" where
  "attribute name parts =
     (case filter (\<lambda>p. HasPrefix p (name @ ''='')) parts of
        [] \<Rightarrow> []
      | p # ps \<Rightarrow> drop (Suc (length name)) p)"

definition example_parseSetCookie :: "string \<Rightarrow> cookie option" where
  "example_parseSetCookie line =
     (let parts = map (dropWhile (\<lambda>c. c = CHR '' '')) (splitOn (CHR '';'') line);
          nv = hd parts;
          name = takeWhile (\<lambda>c. c \<noteq> CHR ''='') nv
      in if name = [] \<or> \<not> Contains nv ''='' then None
         else Some \<lparr>Name = name, Value = drop (Suc (length name)) nv,
                    Path = attribute ''Path'' (tl parts), Domain = attribute ''Domain'' (tl parts),
                    Expires = [], MaxAge = 0, Secure = False, HttpOnly = False, SameSite = []\<rparr>)"

definition example_cookie_String :: "cookie \<Rightarrow> string" where
  "example_cookie_String c =
     Name c @ ''='' @ Value c
       @ (if Path c = [] then [] else ''; Path='' @ Path c)
       @ (if Domain c = [] then [] else ''; Domain='' @ Domain c)"

definition example_env :: "example_key env" where
  "example_env =
     \<lparr>url_String = example_url_String,
      url_Hostname = example_Hostname,
      url_ParseQuery = example_ParseQuery,
      values_Encode = example_Encode,
      filepath_Join = example_Join,
      retryablehttp_NewRequest = example_NewRequest,
      client_Do = example_Do,
      json_Decode = example_Decode,
      gjson_Bool = example_Bool,
      gjson_String = example_gjson_String,
      jwk_Public = example_Public,
      time_Now = 1700000000500000000,
      uuid_NewV4 = Inr ''6ba7b810-9dad-41d1-80b4-00c04fd430c8'',
      res_Location = (\<lambda>res. None),
      parseSetCookie = example_parseSetCookie,
      cookie_String = example_cookie_String\<rparr>"

definition example_conf :: config where
  "example_conf =
     \<lparr>port = 4000, noCert = False, noOpen = True,
      apiEndpoint = ''https://oryapis.com'', consoleEndpoint = ''https://console.ory.sh'',
      hostPort = ''localhost:4000'', isLocal = False, upstream = ''http://localhost:3000''\<rparr>"

definition example_endpoint :: url where
  "example_endpoint =
     \<lparr>url_Scheme = ''https'', url_Host = ''demo.projects.oryapis.com'', url_Path = [],
      url_RawQuery = [], url_Fragment = []\<rparr>"

text \<open>A signer of the examples: the token shows the subject and the token id it was given.\<close>

definition example_sig :: signer where
  "example_sig cl = Inr (''jwt:'' @ Subject cl @ '':'' @ ID cl)"

definition example_request :: "string \<Rightarrow> header \<Rightarrow> request" where
  "example_request p h =
     \<lparr>Method = ''GET'',
      URL = \<lparr>url_Scheme = [], url_Host = [], url_Path = p, url_RawQuery = [], url_Fragment = []\<rparr>,
      Host = ''localhost:4000'', Header = h, Body = []\<rparr>"


section \<open>Properties\<close>

subsection \<open>Strings and routing\<close>

lemma Contains_Nil [simp]: "Contains s []"
  by (induction s) (simp_all add: HasPrefix_def)

lemma ReplaceAll_absent: "\<not> Contains s old \<Longrightarrow> ReplaceAll s old new = s"
proof (induction s)
  case Nil
  then show ?case by (simp add: ReplaceAll.simps)
next
  case (Cons c cs)
  from Cons.prems have "old \<noteq> []" by auto
  moreover from Cons.prems have "\<not> HasPrefix (c # cs) old" and "\<not> Contains cs old" by simp_all
  ultimately show ?case using Cons.IH by (simp add: ReplaceAll.simps [of "c # cs"])
qed

lemma ReplaceAll_at_front:
  "old \<noteq> [] \<Longrightarrow> ReplaceAll (old @ rest) old new = new @ ReplaceAll rest old new"
  by (simp add: ReplaceAll.simps [of "old @ rest"] HasPrefix_def)

text \<open>Every path the handler answers itself lies under the reserved prefix.\<close>

lemma fixedPaths_reserved: "p \<in> set fixedPaths \<Longrightarrow> HasPrefix p ''/.ory''"
  by (auto simp: fixedPaths_def HasPrefix_def)

lemma checkOry_reserved:
  assumes "HasPrefix (url_Path (URL r)) ''/.ory''" and "url_Path (URL r) \<notin> set fixedPaths"
  shows "checkOry E conf keys sig endpoint r = OryUpstream (forwardToOry E endpoint r)"
  using assms by (simp add: checkOry_def fixedPaths_def Let_def)

lemma forwardToOry_fields:
  "url_Path (URL (forwardToOry E endpoint r)) = ReplaceAll (url_Path (URL r)) ''/.ory/'' ''/''"
  "Host (forwardToOry E endpoint r) = url_Host endpoint"
  "url_RawQuery (URL (forwardToOry E endpoint r)) =
     values_Encode E ((url_ParseQuery E (url_RawQuery (URL r)))(''isProxy'' \<mapsto> [''true'']))"
  "Method (forwardToOry E endpoint r) = Method r"
  "Header (forwardToOry E endpoint r) = Header r"
  "Body (forwardToOry E endpoint r) = Body r"
  "url_Scheme (URL (forwardToOry E endpoint r)) = url_Scheme (URL r)"
  "url_Host (URL (forwardToOry E endpoint r)) = url_Host (URL r)"
  "url_Fragment (URL (forwardToOry E endpoint r)) = url_Fragment (URL r)"
  by (simp_all add: forwardToOry_def Let_def values_Set_def)

subsection \<open>The reserved prefix without a slash\<close>

text \<open>
  Claim C10. A request whose path begins with the characters \<open>/.ory\<close>, with or without a
  slash behind them (\<open>/.oryfoo\<close>), and is none of the fixed paths is handed to the
  identity-provider reverse proxy and never to the next handler, the upstream
  application; when the path contains no \<open>/.ory/\<close> it is forwarded with its path unchanged.
\<close>

theorem reserved_prefix_without_slash:
  assumes "HasPrefix (url_Path (URL r)) ''/.ory''" and "url_Path (URL r) \<notin> set fixedPaths"
  shows "checkOry E conf keys sig endpoint r = OryUpstream (forwardToOry E endpoint r)
       \<and> (\<forall>r'. checkOry E conf keys sig endpoint r \<noteq> Next r')
       \<and> (\<not> Contains (url_Path (URL r)) ''/.ory/'' \<longrightarrow>
            url_Path (URL (forwardToOry E endpoint r)) = url_Path (URL r))"
  using assms by (simp add: checkOry_reserved forwardToOry_fields ReplaceAll_absent)

theorem reserved_prefix_without_slash_witness:
  "HasPrefix (url_Path (URL (example_request ''/.oryfoo'' Map.empty))) ''/.ory''
   \<and> url_Path (URL (example_request ''/.oryfoo'' Map.empty)) \<notin> set fixedPaths
   \<and> \<not> Contains ''/.oryfoo'' ''/.ory/''
   \<and> (case checkOry example_env example_conf example_keys example_sig example_endpoint
              (example_request ''/.oryfoo'' Map.empty) of
         OryUpstream r' \<Rightarrow> url_Path (URL r') = ''/.oryfoo'' \<and> Host r' = ''demo.projects.oryapis.com''
       | _ \<Rightarrow> False)"
proof -
  let ?r = "example_request ''/.oryfoo'' Map.empty"
  have p: "url_Path (URL ?r) = ''/.oryfoo''" by (simp add: example_request_def)
  have h1: "HasPrefix (url_Path (URL ?r)) ''/.ory''" by (simp add: p HasPrefix_def)
  have h2: "url_Path (URL ?r) \<notin> set fixedPaths" by (simp add: p fixedPaths_def)
  have h3: "\<not> Contains ''/.oryfoo'' ''/.ory/''" by (simp add: HasPrefix_def)
  from reserved_prefix_without_slash [OF h1 h2, of example_env example_conf example_keys example_sig example_endpoint]
  show ?thesis using h1 h2 h3 by (simp add: p forwardToOry_fields example_endpoint_def)
qed

subsection \<open>Pass-through to the identity provider\<close>

lemma example_forward_query:
  "values_Encode example_env ((url_ParseQuery example_env [])(''isProxy'' \<mapsto> [''true''])) = ''isProxy=true''"
  by (simp add: example_env_def example_Encode_def example_ParseQuery_def)

text \<open>
  Claim C5, as amended. A request whose path begins with the reserved prefix and is none
  of the fixed paths is forwarded with its path run through
  \<open>ReplaceAll path "/.ory/" "/"\<close>: every occurrence of \<open>/.ory/\<close>, found from the left
  without overlap, becomes \<open>/\<close>. A path \<open>/.ory/rest\<close> whose \<open>rest\<close> holds no further
  \<open>/.ory/\<close> loses exactly that one segment. The host becomes the endpoint's host, the
  query is re-encoded from the parsed inbound query with \<open>isProxy\<close> set to \<open>true\<close>, and
  nothing else of the request changes.
\<close>

theorem passthrough_rewrite:
  assumes "HasPrefix (url_Path (URL r)) ''/.ory''" and "url_Path (URL r) \<notin> set fixedPaths"
  shows "\<exists>r'. checkOry E conf keys sig endpoint r = OryUpstream r'
       \<and> url_Path (URL r') = ReplaceAll (url_Path (URL r)) ''/.ory/'' ''/''
       \<and> (\<forall>rest. url_Path (URL r) = ''/.ory/'' @ rest \<and> \<not> Contains rest ''/.ory/'' \<longrightarrow>
             url_Path (URL r') = ''/'' @ rest)
       \<and> Host r' = url_Host endpoint
       \<and> url_RawQuery (URL r') =
           values_Encode E ((url_ParseQuery E (url_RawQuery (URL r)))(''isProxy'' \<mapsto> [''true'']))
       \<and> Method r' = Method r \<and> Header r' = Header r \<and> Body r' = Body r
       \<and> url_Scheme (URL r') = url_Scheme (URL r) \<and> url_Host (URL r') = url_Host (URL r)
       \<and> url_Fragment (URL r') = url_Fragment (URL r)"
proof -
  have one: "ReplaceAll (''/.ory/'' @ rest) ''/.ory/'' ''/'' = ''/'' @ rest"
    if "\<not> Contains rest ''/.ory/''" for rest
    using that ReplaceAll_at_front [of "''/.ory/''" rest "''/''"]
    by (simp add: ReplaceAll_absent)
  show ?thesis
    using assms one by (simp add: checkOry_reserved forwardToOry_fields)
qed

theorem passthrough_rewrite_witness:
  "HasPrefix (url_Path (URL (example_request ''/.ory/api/kratos/public/health/ready'' Map.empty))) ''/.ory''
   \<and> url_Path (URL (example_request ''/.ory/api/kratos/public/health/ready'' Map.empty)) \<notin> set fixedPaths
   \<and> \<not> Contains ''api/kratos/public/health/ready'' ''/.ory/''
   \<and> checkOry example_env example_conf example_keys example_sig example_endpoint
        (example_request ''/.ory/api/kratos/public/health/ready'' Map.empty)
      = OryUpstream
          \<lparr>Method = ''GET'',
           URL = \<lparr>url_Scheme = [], url_Host = [], url_Path = ''/api/kratos/public/health/ready'',
                  url_RawQuery = ''isProxy=true'', url_Fragment = []\<rparr>,
           Host = ''demo.projects.oryapis.com'', Header = Map.empty, Body = []\<rparr>"
proof -
  let ?r = "example_request ''/.ory/api/kratos/public/health/ready'' Map.empty"
  have p: "url_Path (URL ?r) = ''/.ory/'' @ ''api/kratos/public/health/ready''"
    by (simp add: example_request_def)
  have h1: "HasPrefix (url_Path (URL ?r)) ''/.ory''" by (simp add: example_request_def HasPrefix_def)
  have h2: "url_Path (URL ?r) \<notin> set fixedPaths" by (simp add: example_request_def fixedPaths_def)
  have h3: "\<not> Contains ''api/kratos/public/health/ready'' ''/.ory/''" by code_simp
  from passthrough_rewrite [OF h1 h2, of example_env example_conf example_keys example_sig example_endpoint]
  obtain r' where r': "checkOry example_env example_conf example_keys example_sig example_endpoint ?r = OryUpstream r'"
    and path: "\<forall>rest. url_Path (URL ?r) = ''/.ory/'' @ rest \<and> \<not> Contains rest ''/.ory/'' \<longrightarrow>
             url_Path (URL r') = ''/'' @ rest"
    and rest: "Host r' = url_Host example_endpoint"
      "url_RawQuery (URL r') =
           values_Encode example_env ((url_ParseQuery example_env (url_RawQuery (URL ?r)))(''isProxy'' \<mapsto> [''true'']))"
      "Method r' = Method ?r" "Header r' = Header ?r" "Body r' = Body ?r"
      "url_Scheme (URL r') = url_Scheme (URL ?r)" "url_Host (URL r') = url_Host (URL ?r)"
      "url_Fragment (URL r') = url_Fragment (URL ?r)"
    by blast
  from path p h3 have "url_Path (URL r') = ''/api/kratos/public/health/ready''" by simp
  moreover have "url_RawQuery (URL ?r) = []" by (simp add: example_request_def)
  ultimately have "r' = \<lparr>Method = ''GET'',
           URL = \<lparr>url_Scheme = [], url_Host = [], url_Path = ''/api/kratos/public/health/ready'',
                  url_RawQuery = ''isProxy=true'', url_Fragment = []\<rparr>,
           Host = ''demo.projects.oryapis.com'', Header = Map.empty, Body = []\<rparr>"
    using rest by (cases r', cases "URL r'") (simp add: example_forward_query example_request_def example_endpoint_def)
  with r' h1 h2 h3 show ?thesis by simp
qed

text \<open>
  The claim as stated fails on \<open>/.ory/a/.ory/b\<close>: the forwarded path is \<open>/a/b\<close>, shorter by
  two segments \<open>/.ory\<close>, with no occurrence left. Removing exactly one occurrence would
  have left \<open>/a/.ory/b\<close> or \<open>/.ory/a/b\<close>.
\<close>

theorem passthrough_two_segments_counterexample:
  "checkOry example_env example_conf example_keys example_sig example_endpoint
        (example_request ''/.ory/a/.ory/b'' Map.empty)
      = OryUpstream
          \<lparr>Method = ''GET'',
           URL = \<lparr>url_Scheme = [], url_Host = [], url_Path = ''/a/b'',
                  url_RawQuery = ''isProxy=true'', url_Fragment = []\<rparr>,
           Host = ''demo.projects.oryapis.com'', Header = Map.empty, Body = []\<rparr>
   \<and> length ''/.ory/a/.ory/b'' - length ''/a/b'' = 2 * length ''/.ory''
   \<and> \<not> Contains ''/a/b'' ''/.ory''"
proof -
  let ?r = "example_request ''/.ory/a/.ory/b'' Map.empty"
  have rep: "ReplaceAll ''/.ory/a/.ory/b'' ''/.ory/'' ''/'' = ''/a/b''" by code_simp
  have "forwardToOry example_env example_endpoint ?r = \<lparr>Method = ''GET'',
           URL = \<lparr>url_Scheme = [], url_Host = [], url_Path = ''/a/b'',
                  url_RawQuery = ''isProxy=true'', url_Fragment = []\<rparr>,
           Host = ''demo.projects.oryapis.com'', Header = Map.empty, Body = []\<rparr>"
    using example_forward_query
    by (simp add: forwardToOry_def example_request_def example_endpoint_def rep values_Set_def)
  moreover have "checkOry example_env example_conf example_keys example_sig example_endpoint ?r
      = OryUpstream (forwardToOry example_env example_endpoint ?r)"
    by (rule checkOry_reserved) (simp_all add: example_request_def HasPrefix_def fixedPaths_def)
  moreover have "\<not> Contains ''/a/b'' ''/.ory''" by code_simp
  ultimately show ?thesis by simp
qed

subsection \<open>Flow-initiation shortcuts\<close>

text \<open>
  Claim C3, as amended. A request to \<open>/.ory/init/<flow>\<close>, for the five flows login,
  registration, recovery, verification and settings, is answered by
  \<open>http.Redirect\<close> with status 303 and the URL
  \<open>/.ory/api/kratos/public/self-service/<flow>/browser?return_to=https://<hostPort>\<close>:
  a path on the proxy itself, under the reserved prefix, that names neither the host nor
  the URL of the identity endpoint. (\<open>http.Redirect\<close> writes a rooted, clean path of
  ASCII text into the \<open>Location\<close> header as it is.)
\<close>

theorem init_shortcut_redirects:
  assumes "flow \<in> set [''login'', ''registration'', ''recovery'', ''verification'', ''settings'']"
      and "url_Path (URL r) = ''/.ory/init/'' @ flow"
  shows "checkOry E conf keys sig endpoint r =
           Redirect (''/.ory/api/kratos/public/self-service/'' @ flow
                       @ ''/browser?return_to=https://'' @ hostPort conf) 303"
  using assms by (auto simp: checkOry_def initUrl_def StatusSeeOther_def)

theorem init_shortcut_redirects_witness:
  "''registration'' \<in> set [''login'', ''registration'', ''recovery'', ''verification'', ''settings'']
   \<and> url_Path (URL (example_request ''/.ory/init/registration'' Map.empty)) = ''/.ory/init/'' @ ''registration''
   \<and> checkOry example_env example_conf example_keys example_sig example_endpoint
        (example_request ''/.ory/init/registration'' Map.empty)
      = Redirect ''/.ory/api/kratos/public/self-service/registration/browser?return_to=https://localhost:4000'' 303"
proof -
  have h1: "''registration'' \<in> set [''login'', ''registration'', ''recovery'', ''verification'', ''settings'']"
    by simp
  have h2: "url_Path (URL (example_request ''/.ory/init/registration'' Map.empty)) = ''/.ory/init/'' @ ''registration''"
    by (simp add: example_request_def)
  from init_shortcut_redirects [OF h1 h2, of example_env example_conf example_keys example_sig example_endpoint]
  show ?thesis using h1 h2 by (simp add: example_conf_def)
qed

text \<open>
  The claim as stated fails on \<open>/.ory/init/login\<close>: the redirect URL does not start with
  the identity endpoint's URL and does not contain the endpoint's host.
\<close>

theorem init_login_location_counterexample:
  "checkOry example_env example_conf example_keys example_sig example_endpoint
        (example_request ''/.ory/init/login'' Map.empty)
      = Redirect ''/.ory/api/kratos/public/self-service/login/browser?return_to=https://localhost:4000'' 303
   \<and> url_String example_env example_endpoint = ''https://demo.projects.oryapis.com''
   \<and> \<not> HasPrefix ''/.ory/api/kratos/public/self-service/login/browser?return_to=https://localhost:4000''
          (url_String example_env example_endpoint)
   \<and> \<not> Contains ''/.ory/api/kratos/public/self-service/login/browser?return_to=https://localhost:4000''
          (url_Host example_endpoint)"
proof -
  have "checkOry example_env example_conf example_keys example_sig example_endpoint
        (example_request ''/.ory/init/login'' Map.empty)
      = Redirect ''/.ory/api/kratos/public/self-service/login/browser?return_to=https://localhost:4000'' 303"
    by (simp add: checkOry_def initUrl_def StatusSeeOther_def example_request_def example_conf_def)
  moreover have "url_String example_env example_endpoint = ''https://demo.projects.oryapis.com''"
    by (simp add: example_env_def example_url_String_def example_endpoint_def)
  moreover have "\<not> HasPrefix ''/.ory/api/kratos/public/self-service/login/browser?return_to=https://localhost:4000''
          ''https://demo.projects.oryapis.com''"
    by (simp add: HasPrefix_def)
  moreover have "\<not> Contains ''/.ory/api/kratos/public/self-service/login/browser?return_to=https://localhost:4000''
          (url_Host example_endpoint)"
    by code_simp
  ultimately show ?thesis by simp
qed

subsection \<open>The key set\<close>

text \<open>
  Claim C7. A request to \<open>/.ory/jwks.json\<close> or to \<open>/.ory/login\<close> is answered by writing
  the key set that holds \<open>Public()\<close> of each signing key, in order, and nothing else; so
  whatever \<open>Public()\<close> never returns (private key material, the predicate \<open>private\<close>)
  is in no key of the body.
\<close>

theorem jwks_public_keys_only:
  assumes "url_Path (URL r) = ''/.ory/jwks.json'' \<or> url_Path (URL r) = ''/.ory/login''"
  shows "checkOry E conf keys sig endpoint r = Write (map (jwk_Public E) keys)
       \<and> ((\<forall>k. \<not> private (jwk_Public E k)) \<longrightarrow>
            (\<exists>ks. checkOry E conf keys sig endpoint r = Write ks \<and> list_all (\<lambda>k. \<not> private k) ks))"
  using assms by (auto simp: checkOry_def list_all_iff)

theorem jwks_public_keys_only_witness:
  "(url_Path (URL (example_request ''/.ory/jwks.json'' Map.empty)) = ''/.ory/jwks.json''
     \<or> url_Path (URL (example_request ''/.ory/jwks.json'' Map.empty)) = ''/.ory/login'')
   \<and> example_keys = [(''P-256 x y'', Some ''d'')]
   \<and> checkOry example_env example_conf example_keys example_sig example_endpoint
        (example_request ''/.ory/jwks.json'' Map.empty) = Write [(''P-256 x y'', None)]"
proof -
  have h: "url_Path (URL (example_request ''/.ory/jwks.json'' Map.empty)) = ''/.ory/jwks.json''
     \<or> url_Path (URL (example_request ''/.ory/jwks.json'' Map.empty)) = ''/.ory/login''"
    by (simp add: example_request_def)
  from jwks_public_keys_only [OF h, of example_env example_conf example_keys example_sig example_endpoint]
  show ?thesis using h by (simp add: example_env_def example_keys_def example_Public_def)
qed

subsection \<open>The session check\<close>

lemma checkOry_application:
  assumes "\<not> HasPrefix (url_Path (URL r)) ''/.ory''"
  shows "checkOry E conf keys sig endpoint r =
           (case checkSession E r endpoint of
              Inl err \<Rightarrow> Next (r\<lparr>Header := header_Del (Header r) ''Authorization''\<rparr>)
            | Inr s \<Rightarrow>
                if \<not> gjson_Bool E s ''active''
                then Next (r\<lparr>Header := header_Del (Header r) ''Authorization''\<rparr>)
                else (case uuid_NewV4 E of
                        Inl err \<Rightarrow> Panic err
                      | Inr u \<Rightarrow>
                          (case sig (sessionClaims E endpoint s u) of
                             Inl err \<Rightarrow> WriteError err
                           | Inr raw \<Rightarrow>
                               Next (r\<lparr>Header :=
                                 (header_Del (Header r) ''Authorization'')(''Authorization'' \<mapsto> [''Bearer '' @ raw])\<rparr>))))"
proof -
  from assms fixedPaths_reserved have "url_Path (URL r) \<notin> set fixedPaths" by blast
  then show ?thesis
    using assms by (auto simp: checkOry_def fixedPaths_def Let_def header_Set_def split: sum.splits)
qed

lemma checkSession_cases:
  "checkSession E r t =
     (case checkSession_request E r t of
        Inl err \<Rightarrow> Inl err
      | Inr req \<Rightarrow>
          (case client_Do E req of
             Inl err \<Rightarrow> Inl (ErrInternalServerErrorWithReason ''Unable to call session checker: '' err)
           | Inr res_body \<Rightarrow>
               (case json_Decode E res_body of
                  Inl err \<Rightarrow> Inl (ErrInternalServerErrorWithReason ''Unable to decode session to JSON: '' err)
                | Inr body \<Rightarrow> Inr body)))"
  by (simp add: checkSession_def)


text \<open>The example identity provider, run through \<open>checkSession\<close>.\<close>

lemma example_whoami_request:
  "checkSession_request example_env (example_request p h) example_endpoint =
     Inr \<lparr>out_Method = ''GET'',
          out_URL = ''https://demo.projects.oryapis.com/api/kratos/public/sessions/whoami'',
          out_Header = [''Cookie'' \<mapsto> [header_Get h ''Cookie''],
                        ''Authorization'' \<mapsto> [header_Get h ''Authorization''],
                        ''X-Session-Token'' \<mapsto> [header_Get h ''X-Session-Token''],
                        ''X-Request-Id'' \<mapsto> [header_Get h ''X-Request-Id''],
                        ''Accept'' \<mapsto> [''application/json'']]\<rparr>"
  by (simp add: checkSession_request_def example_env_def example_endpoint_def example_Join_def
      example_url_String_def example_NewRequest_def example_request_def header_Set_def)

lemma example_Do_whoami:
  "client_Do example_env
     \<lparr>out_Method = m, out_URL = u,
      out_Header = [''Cookie'' \<mapsto> [c], ''Authorization'' \<mapsto> [a], ''X-Session-Token'' \<mapsto> [x],
                    ''X-Request-Id'' \<mapsto> [i], ''Accept'' \<mapsto> [j]]\<rparr>
   = (if c = ''down'' then Inl (LibError ''connection refused'')
      else if c = ''html'' then Inr ''<html>''
      else if c = ''ory_session=abc'' \<or> a = ''Bearer tok'' then Inr active_body
      else if c = ''ory_session=old'' then Inr inactive_body
      else Inr unauthorized_body)"
  by (simp add: example_env_def example_Do_def header_Get_def Let_def)





text \<open>
  Claim C2. For a request outside the reserved prefix (application traffic): when the
  session check fails, because the request to the identity provider cannot be built, the
  client reports a transport error or the response does not decode, or when the payload's
  \<open>active\<close> field does not read as true, the handler calls the next handler, whatever
  the signer is. The delegated request has no \<open>Authorization\<close> header and is the inbound
  request in everything else; no error response is written.
\<close>

theorem inactive_session_passes_without_token:
  assumes app: "\<not> HasPrefix (url_Path (URL r)) ''/.ory''"
      and fail: "(\<exists>e. checkSession_request E r endpoint = Inl e)
         \<or> (\<exists>req. checkSession_request E r endpoint = Inr req
               \<and> ((\<exists>e. client_Do E req = Inl e)
                  \<or> (\<exists>body. client_Do E req = Inr body
                        \<and> ((\<exists>e. json_Decode E body = Inl e)
                           \<or> (\<exists>s. json_Decode E body = Inr s \<and> \<not> gjson_Bool E s ''active'')))))"
  shows "\<exists>r'. checkOry E conf keys sig endpoint r = Next r'
       \<and> Header r' ''Authorization'' = None
       \<and> (\<forall>k. k \<noteq> ''Authorization'' \<longrightarrow> Header r' k = Header r k)
       \<and> Method r' = Method r \<and> URL r' = URL r \<and> Host r' = Host r \<and> Body r' = Body r"
proof -
  from fail have "(\<exists>e. checkSession E r endpoint = Inl e)
      \<or> (\<exists>s. checkSession E r endpoint = Inr s \<and> \<not> gjson_Bool E s ''active'')"
    by (auto simp: checkSession_cases)
  then have "checkOry E conf keys sig endpoint r = Next (r\<lparr>Header := header_Del (Header r) ''Authorization''\<rparr>)"
    by (auto simp: checkOry_application [OF app])
  then show ?thesis by (simp add: header_Del_def)
qed

theorem inactive_session_passes_without_token_witness:
  "\<not> HasPrefix (url_Path (URL (example_request ''/dashboard''
        [''Cookie'' \<mapsto> [''down''], ''Authorization'' \<mapsto> [''Bearer forged'']]))) ''/.ory''
   \<and> checkSession example_env (example_request ''/dashboard''
        [''Cookie'' \<mapsto> [''down''], ''Authorization'' \<mapsto> [''Bearer forged'']]) example_endpoint
      = Inl (ErrInternalServerErrorWithReason ''Unable to call session checker: ''
               (LibError ''connection refused''))
   \<and> (case checkOry example_env example_conf example_keys example_sig example_endpoint
             (example_request ''/dashboard''
                [''Cookie'' \<mapsto> [''down''], ''Authorization'' \<mapsto> [''Bearer forged'']]) of
         Next r' \<Rightarrow> Header r' ''Authorization'' = None \<and> Header r' ''Cookie'' = Some [''down'']
       | _ \<Rightarrow> False)"
proof -
  let ?r = "example_request ''/dashboard''
        [''Cookie'' \<mapsto> [''down''], ''Authorization'' \<mapsto> [''Bearer forged'']]"
  let ?req = "\<lparr>out_Method = ''GET'',
          out_URL = ''https://demo.projects.oryapis.com/api/kratos/public/sessions/whoami'',
          out_Header = [''Cookie'' \<mapsto> [''down''],
                        ''Authorization'' \<mapsto> [''Bearer forged''],
                        ''X-Session-Token'' \<mapsto> [[]],
                        ''X-Request-Id'' \<mapsto> [[]],
                        ''Accept'' \<mapsto> [''application/json'']]\<rparr>"
  have h1: "\<not> HasPrefix (url_Path (URL ?r)) ''/.ory''"
    by (simp add: example_request_def HasPrefix_def)
  have req: "checkSession_request example_env ?r example_endpoint = Inr ?req"
    by (simp add: example_whoami_request header_Get_def)
  have do: "client_Do example_env ?req = Inl (LibError ''connection refused'')"
    by (simp add: example_Do_whoami)
  from req do have h2: "(\<exists>e. checkSession_request example_env ?r example_endpoint = Inl e)
         \<or> (\<exists>req. checkSession_request example_env ?r example_endpoint = Inr req
               \<and> ((\<exists>e. client_Do example_env req = Inl e)
                  \<or> (\<exists>body. client_Do example_env req = Inr body
                        \<and> ((\<exists>e. json_Decode example_env body = Inl e)
                           \<or> (\<exists>s. json_Decode example_env body = Inr s \<and> \<not> gjson_Bool example_env s ''active'')))))"
    by blast
  have s: "checkSession example_env ?r example_endpoint
      = Inl (ErrInternalServerErrorWithReason ''Unable to call session checker: ''
               (LibError ''connection refused''))"
    using req do by (simp add: checkSession_cases)
  have hdr: "Header ?r ''Cookie'' = Some [''down'']"
    by (simp add: example_request_def)
  from inactive_session_passes_without_token [OF h1 h2, of example_conf example_keys example_sig]
  obtain r' where
    "checkOry example_env example_conf example_keys example_sig example_endpoint ?r = Next r'"
    "Header r' ''Authorization'' = None"
    "\<forall>k. k \<noteq> ''Authorization'' \<longrightarrow> Header r' k = Header ?r k"
    by blast
  with hdr h1 s show ?thesis by simp
qed



subsection \<open>The inbound Authorization header\<close>






subsection \<open>Cookies of the identity provider\<close>

lemma EqualFold_refl [simp]: "EqualFold s s"
  by (simp add: EqualFold_def)

lemma EqualFold_Nil [simp]: "EqualFold [] t = (t = [])"
  by (auto simp: EqualFold_def)

lemma set_map_filter:
  "y \<in> set (List.map_filter f xs) \<longleftrightarrow> (\<exists>x \<in> set xs. f x = Some y)"
  by (induction xs) (auto split: option.splits)

lemma addCookies_other_key:
  "k \<noteq> ''Set-Cookie'' \<Longrightarrow> addCookies E endpoint cs h k = h k"
  by (induction cs arbitrary: h) (simp_all add: header_Add_def)

lemma addCookies_Set_Cookie:
  "header_Values (addCookies E endpoint cs h) ''Set-Cookie'' =
     header_Values h ''Set-Cookie''
       @ map (\<lambda>c. cookie_String E (c\<lparr>Domain := []\<rparr>))
           (filter (\<lambda>c. EqualFold (Domain c) (url_Hostname E endpoint)) cs)"
proof (induction cs arbitrary: h)
  case Nil
  show ?case by simp
next
  case (Cons c cs)
  show ?case
  proof (cases "EqualFold (Domain c) (url_Hostname E endpoint)")
    case True
    have "header_Values (header_Add h ''Set-Cookie'' v) ''Set-Cookie'' = header_Values h ''Set-Cookie'' @ [v]" for v
      by (simp add: header_Add_def header_Values_def split: option.splits)
    with True Cons.IH show ?thesis by simp
  next
    case False
    with Cons.IH show ?thesis by simp
  qed
qed

lemma ModifyResponse_Cookies:
  assumes "EqualFold (res_Request_Host res) (url_Host endpoint)"
  shows "header_Values (res_Header (ModifyResponse E conf endpoint res)) ''Set-Cookie'' =
           map (\<lambda>c. cookie_String E (c\<lparr>Domain := []\<rparr>))
             (filter (\<lambda>c. EqualFold (Domain c) (url_Hostname E endpoint)) (Cookies E res))"
proof -
  define res1 where "res1 =
               (case res_Location E res of
                  None \<Rightarrow> res
                | Some redir \<Rightarrow>
                    if EqualFold (url_Host redir) (url_Host endpoint)
                    then (let redir1 = redir\<lparr>url_Host := hostPort conf\<rparr>;
                              redir2 = redir1\<lparr>url_Path := ''/.ory'' @ TrimPrefix (url_Path redir1) ''/.ory''\<rparr>
                          in res\<lparr>res_Header := header_Set (res_Header res) ''Location'' (url_String E redir2)\<rparr>)
                    else res)"
  have "res_Header res1 ''Set-Cookie'' = res_Header res ''Set-Cookie''"
    by (simp add: res1_def header_Set_def Let_def split: option.splits)
  then have c: "Cookies E res1 = Cookies E res"
    by (simp add: Cookies_def header_Values_def)
  have "ModifyResponse E conf endpoint res =
      res1\<lparr>res_Header := addCookies E endpoint (Cookies E res1) (header_Del (res_Header res1) ''Set-Cookie'')\<rparr>"
    using assms by (simp add: ModifyResponse_def res1_def Let_def)
  then show ?thesis
    by (simp add: addCookies_Set_Cookie c) (simp add: header_Values_def header_Del_def)
qed

text \<open>
  Claim C8. For a response of the identity-provider reverse proxy (its request carries
  the endpoint's host, as the pass-through branch sets it), the \<open>Set-Cookie\<close> headers
  after \<open>ModifyResponse\<close> are exactly the cookies \<open>kept\<close>, each written with an empty
  \<open>Domain\<close>: the cookies parsed from the old \<open>Set-Cookie\<close> lines whose \<open>Domain\<close> equals
  the endpoint's hostname as a host name, that is by \<open>EqualFold\<close>, letter case ignored.
  A cookie whose \<open>Domain\<close> is the hostname is kept; every header written comes from such
  a cookie, so a cookie with another \<open>Domain\<close>, and one with no \<open>Domain\<close> at all (the
  endpoint has a hostname), is dropped, as is a line that does not parse.
\<close>

theorem passthrough_cookies_rewritten:
  assumes "EqualFold (res_Request_Host res) (url_Host endpoint)"
  shows "\<exists>kept.
           header_Values (res_Header (ModifyResponse E conf endpoint res)) ''Set-Cookie''
             = map (\<lambda>c. cookie_String E (c\<lparr>Domain := []\<rparr>)) kept
         \<and> kept = filter (\<lambda>c. EqualFold (Domain c) (url_Hostname E endpoint))
                    (List.map_filter (parseSetCookie E) (header_Values (res_Header res) ''Set-Cookie''))
         \<and> (\<forall>line c. line \<in> set (header_Values (res_Header res) ''Set-Cookie'')
                \<and> parseSetCookie E line = Some c \<and> Domain c = url_Hostname E endpoint
              \<longrightarrow> c \<in> set kept)
         \<and> (\<forall>c \<in> set kept. EqualFold (Domain c) (url_Hostname E endpoint)
                \<and> (\<exists>line \<in> set (header_Values (res_Header res) ''Set-Cookie'').
                      parseSetCookie E line = Some c))
         \<and> (url_Hostname E endpoint \<noteq> [] \<longrightarrow> (\<forall>c \<in> set kept. Domain c \<noteq> []))"
proof -
  let ?lines = "header_Values (res_Header res) ''Set-Cookie''"
  let ?kept = "filter (\<lambda>c. EqualFold (Domain c) (url_Hostname E endpoint))
                    (List.map_filter (parseSetCookie E) ?lines)"
  have parsed: "c \<in> set (List.map_filter (parseSetCookie E) ?lines)
      \<longleftrightarrow> (\<exists>line \<in> set ?lines. parseSetCookie E line = Some c)" for c
    by (simp add: set_map_filter)
  have "header_Values (res_Header (ModifyResponse E conf endpoint res)) ''Set-Cookie''
             = map (\<lambda>c. cookie_String E (c\<lparr>Domain := []\<rparr>)) ?kept"
    using ModifyResponse_Cookies [OF assms] by (simp add: Cookies_def)
  moreover have "\<forall>line c. line \<in> set ?lines
                \<and> parseSetCookie E line = Some c \<and> Domain c = url_Hostname E endpoint
              \<longrightarrow> c \<in> set ?kept"
    using parsed by auto
  moreover have "\<forall>c \<in> set ?kept. EqualFold (Domain c) (url_Hostname E endpoint)
                \<and> (\<exists>line \<in> set ?lines. parseSetCookie E line = Some c)"
    using parsed by auto
  moreover have "url_Hostname E endpoint \<noteq> [] \<longrightarrow> (\<forall>c \<in> set ?kept. Domain c \<noteq> [])"
    by auto
  ultimately show ?thesis by blast
qed

theorem passthrough_cookies_rewritten_witness:
  "EqualFold
     (res_Request_Host
        \<lparr>res_Request_Host = ''demo.projects.oryapis.com'',
         res_Header = [''Set-Cookie'' \<mapsto>
           [''csrf=1; Path=/; Domain=demo.projects.oryapis.com'', ''other=2; Domain=evil.example'',
            ''nodomain=3'', ''up=4; Domain=DEMO.projects.oryapis.com'']]\<rparr>)
     (url_Host example_endpoint)
   \<and> header_Values
       (res_Header (ModifyResponse example_env example_conf example_endpoint
          \<lparr>res_Request_Host = ''demo.projects.oryapis.com'',
           res_Header = [''Set-Cookie'' \<mapsto>
             [''csrf=1; Path=/; Domain=demo.projects.oryapis.com'', ''other=2; Domain=evil.example'',
              ''nodomain=3'', ''up=4; Domain=DEMO.projects.oryapis.com'']]\<rparr>))
       ''Set-Cookie''
     = [''csrf=1; Path=/'', ''up=4'']"
proof -
  let ?lines = "[''csrf=1; Path=/; Domain=demo.projects.oryapis.com'', ''other=2; Domain=evil.example'',
            ''nodomain=3'', ''up=4; Domain=DEMO.projects.oryapis.com'']"
  let ?res = "\<lparr>res_Request_Host = ''demo.projects.oryapis.com'',
         res_Header = [''Set-Cookie'' \<mapsto> ?lines]\<rparr>"
  have h: "EqualFold (res_Request_Host ?res) (url_Host example_endpoint)"
    by (simp add: example_endpoint_def)
  have lines: "header_Values (res_Header ?res) ''Set-Cookie'' = ?lines"
    by (simp add: header_Values_def)
  have run: "map (\<lambda>c. cookie_String example_env (c\<lparr>Domain := []\<rparr>))
      (filter (\<lambda>c. EqualFold (Domain c) (url_Hostname example_env example_endpoint))
         (List.map_filter (parseSetCookie example_env) ?lines))
     = [''csrf=1; Path=/'', ''up=4'']"
    by code_simp
  from passthrough_cookies_rewritten [OF h, of example_env example_conf]
  obtain kept where
    "header_Values (res_Header (ModifyResponse example_env example_conf example_endpoint ?res)) ''Set-Cookie''
       = map (\<lambda>c. cookie_String example_env (c\<lparr>Domain := []\<rparr>)) kept"
    "kept = filter (\<lambda>c. EqualFold (Domain c) (url_Hostname example_env example_endpoint))
                    (List.map_filter (parseSetCookie example_env) (header_Values (res_Header ?res) ''Set-Cookie''))"
    by blast
  with lines run h show ?thesis by simp
qed

subsection \<open>The certificate and its release function\<close>







text \<open>
  A failure of \<open>tlsx.CreateSelfSignedCertificate\<close> is returned as the error of
  certificate creation, with nothing printed or installed.
\<close>

lemma certificate_error_returned:
  assumes "tlsx_CreateSelfSignedCertificate S (fst (rsa_GenerateKey S 4096)) = Inl e"
  shows "createTLSCertificate S conf t = (Inl e, t)"
  using assms by (cases "rsa_GenerateKey S 4096") (simp add: createTLSCertificate_def)

text \<open>
  Claim C9, at the failing input. The error that \<open>rsa.GenerateKey\<close> returns is never
  read: whatever error comes with the key, certificate creation goes on exactly as if
  there had been none, handing the key (nil after a failure) to
  \<open>tlsx.CreateSelfSignedCertificate\<close>.
\<close>

theorem rsa_error_discarded:
  "createTLSCertificate (S\<lparr>rsa_GenerateKey := \<lambda>bits. (key, Some e)\<rparr>) conf t
     = createTLSCertificate (S\<lparr>rsa_GenerateKey := \<lambda>bits. (key, None)\<rparr>) conf t"
proof -
  have "releaseUninstall (S\<lparr>rsa_GenerateKey := f\<rparr>) c = releaseUninstall S c" for f c
    by (simp add: releaseUninstall_def fun_eq_iff)
  then show ?thesis
    by (simp add: createTLSCertificate_def Let_def split: sum.splits option.splits)
qed

end
